theory Spec2Isabelle
  imports Main
begin

section \<open>Data model of \<open>src/auth.ts\<close>\<close>

text \<open>
  \<open>interface TokenData\<close> (auth.ts, lines 20-28). Timestamps are milliseconds since the
  epoch, as \<open>Date.now()\<close> returns them; the optional fields are \<open>None\<close> when the
  JavaScript value is \<open>undefined\<close>.
\<close>

record TokenData =
  accessToken :: string
  refreshToken :: string
  expiresAt :: int
  scope :: "string list"
  lastRefreshAttempt :: "int option"
  refreshAttempts :: "int option"
  codeVerifier :: "string option"

text \<open>
  \<open>TOKEN_REFRESH_CONFIG\<close> is imported from \<open>security-utils.js\<close>; only its three fields
  are used here, and they are taken as parameters of every operation.
\<close>

record RefreshConfig =
  thresholdMinutes :: int
  maxRetries :: int
  retryDelay :: int

text \<open>
  The two error classes of the module. \<open>McpError\<close> comes from the MCP SDK and carries an
  error code; \<open>TokenRefreshError\<close> is constructed as
  \<open>new TokenRefreshError(message, code, retryable)\<close>.
\<close>

datatype ErrorCode = InvalidParams | InternalError | InvalidRequest

datatype error =
  McpError ErrorCode string
  | TokenRefreshError string string bool

text \<open>
  What \<open>axios.post\<close> hands back for the refresh grant. A fulfilled promise carries the
  provider's \<open>access_token\<close> and \<open>expires_in\<close>. A rejection is an \<open>AxiosError\<close> with
  or without a response (\<open>error_field\<close> is \<open>response.data?.error\<close>), some other
  \<open>Error\<close>, or a thrown value that is no \<open>Error\<close> at all.
\<close>

record TokenResponse =
  access_token :: string
  expires_in :: int

record ErrorResponse =
  status :: int
  error_field :: "string option"

datatype thrown =
  AxiosError "ErrorResponse option" string
  | OtherError string
  | NonError

datatype http_outcome = Resolved TokenResponse | Rejected thrown

record TokenRequest =
  refresh_token :: string
  grant_type :: string
  client_id :: string
  client_secret :: string

text \<open>
  The encrypted blob and the text of the token file. The blob is symbolic: it records the
  key it was sealed under and the state inside, or that it is no valid ciphertext at all.
\<close>

datatype EncryptedTokenData = Sealed string TokenData | Tampered

datatype file_text = Stringified EncryptedTokenData | Malformed string

text \<open>
  Everything outside the module: the configuration, the OAuth client credentials, the
  encryption key, the provider's answer to the k-th POST, and the extra time the k-th
  event (request or sleep) takes.
\<close>

record env =
  TOKEN_REFRESH_CONFIG :: RefreshConfig
  validatedAppKey :: string
  validatedAppSecret :: string
  TOKEN_ENCRYPTION_KEY :: string
  provider :: "nat \<Rightarrow> http_outcome"
  elapsed :: "nat \<Rightarrow> nat"

datatype event = Post TokenRequest | Sleep int

text \<open>
  The mutable state: the module-level \<open>tokenData\<close>, the file at \<open>TOKEN_STORE_PATH\<close>,
  the clock read by \<open>Date.now()\<close>, and the log of the HTTP requests and timer sleeps
  issued so far, oldest first.
\<close>

record world =
  tokenData :: "TokenData option"
  tokenStore :: "file_text option"
  clock :: int
  trace :: "event list"

section \<open>Collaborators\<close>

definition is_Post :: "event \<Rightarrow> bool" where
  "is_Post e = (case e of Post _ \<Rightarrow> True | Sleep _ \<Rightarrow> False)"

definition posts :: "world \<Rightarrow> nat" where
  "posts w = length (filter is_Post (trace w))"

text \<open>
  \<open>await axios.post(...)\<close>: the request is logged, the provider's answer to it is
  returned, and the clock has moved on by the time the round trip took.
\<close>

definition axios_post :: "env \<Rightarrow> TokenRequest \<Rightarrow> world \<Rightarrow> http_outcome \<times> world" where
  "axios_post e req w =
     (provider e (posts w),
      w\<lparr>clock := clock w + int (elapsed e (length (trace w))),
        trace := trace w @ [Post req]\<rparr>)"

text \<open>
  Node's timers: a delay above \<open>2147483647\<close> or below \<open>1\<close> is set to \<open>1\<close>.
\<close>

definition timer_delay :: "int \<Rightarrow> int" where
  "timer_delay d = (if d > 2147483647 \<or> d < 1 then 1 else d)"

text \<open>
  \<open>await new Promise(resolve => setTimeout(resolve, d))\<close>: the sleep is logged with the
  delay asked for, and the clock has moved on by at least the timer's delay.
\<close>

definition sleep :: "env \<Rightarrow> int \<Rightarrow> world \<Rightarrow> world" where
  "sleep e d w =
     w\<lparr>clock := clock w + timer_delay d + int (elapsed e (length (trace w))),
       trace := trace w @ [Sleep d]\<rparr>"

definition JSON_stringify :: "EncryptedTokenData \<Rightarrow> file_text" where
  "JSON_stringify b = Stringified b"

definition JSON_parse :: "file_text \<Rightarrow> EncryptedTokenData option" where
  "JSON_parse t = (case t of Stringified b \<Rightarrow> Some b | Malformed _ \<Rightarrow> None)"

text \<open>
  Modelled from the spec: \<open>encryptData\<close> and \<open>decryptData\<close> of \<open>security-utils.js\<close>, which
  is not among the sources. The spec describes an authenticated symmetric scheme keyed by
  an operator-provided secret, which fails on a missing or invalid key, and whose
  decryption fails on corruption or key mismatch. The environment template asks for a key
  of 32 or more characters. \<open>None\<close> stands for the exception the helper throws.
\<close>

definition valid_key :: "string \<Rightarrow> bool" where
  "valid_key k = (32 \<le> length k)"

definition encryptData :: "string \<Rightarrow> TokenData \<Rightarrow> EncryptedTokenData option" where
  "encryptData k d = (if valid_key k then Some (Sealed k d) else None)"

definition decryptData :: "string \<Rightarrow> EncryptedTokenData \<Rightarrow> TokenData option" where
  "decryptData k b =
     (if valid_key k
      then (case b of Sealed k' d \<Rightarrow> if k' = k then Some d else None | Tampered \<Rightarrow> None)
      else None)"

text \<open>
  \<open>error.message\<close> of the two error classes. The MCP SDK's \<open>McpError\<close> constructor
  prefixes the message it is given with \<open>MCP error <code>: \<close>.
\<close>

definition code_number :: "ErrorCode \<Rightarrow> string" where
  "code_number c =
     (case c of InvalidRequest \<Rightarrow> ''-32600'' | InvalidParams \<Rightarrow> ''-32602''
      | InternalError \<Rightarrow> ''-32603'')"

definition message_of :: "error \<Rightarrow> string" where
  "message_of e =
     (case e of McpError c m \<Rightarrow> ''MCP error '' @ code_number c @ '': '' @ m
      | TokenRefreshError m _ _ \<Rightarrow> m)"

text \<open>A template literal renders a non-negative counter in decimal.\<close>

definition digit :: "nat \<Rightarrow> char" where
  "digit n = ''0123456789'' ! (n mod 10)"

function string_of_nat :: "nat \<Rightarrow> string" where
  "string_of_nat n = (if n < 10 then [digit n] else string_of_nat (n div 10) @ [digit n])"
  by pat_completeness auto
termination
  by (relation "measure id") auto

section \<open>The token store\<close>

text \<open>\<open>ERROR_MESSAGES\<close> (auth.ts, lines 54-61).\<close>

definition TOKEN_EXPIRED :: string where
  "TOKEN_EXPIRED = ''Access token has expired. Attempting to refresh...''"

definition REFRESH_FAILED :: string where
  "REFRESH_FAILED = ''Failed to refresh access token after multiple attempts.''"

definition INVALID_GRANT :: string where
  "INVALID_GRANT = ''The refresh token is invalid or has been revoked. Please re-authenticate.''"

definition NETWORK_ERROR :: string where
  "NETWORK_ERROR = ''Network error occurred while refreshing token. Will retry...''"

definition RATE_LIMIT :: string where
  "RATE_LIMIT = ''Rate limit exceeded. Please try again later.''"

definition SERVER_ERROR :: string where
  "SERVER_ERROR = ''Dropbox server error occurred. Will retry...''"

definition load_failed :: error where
  "load_failed = McpError InternalError
     ''Failed to load token data. The token file may be corrupted or encryption key may be invalid.''"

definition save_failed :: error where
  "save_failed = McpError InternalError
     ''Failed to save token data. Please check if the encryption key is properly set.''"

text \<open>
  \<open>loadTokenData\<close> (lines 71-85): \<open>null\<close> when the file does not exist; when it does,
  every exception of \<open>JSON.parse\<close> or \<open>decryptData\<close> is rethrown as an \<open>McpError\<close>.
\<close>

definition loadTokenData :: "env \<Rightarrow> world \<Rightarrow> error + TokenData option" where
  "loadTokenData e w =
     (case tokenStore w of
        None \<Rightarrow> Inr None
      | Some t \<Rightarrow>
          (case JSON_parse t of
             None \<Rightarrow> Inl load_failed
           | Some b \<Rightarrow>
               (case decryptData (TOKEN_ENCRYPTION_KEY e) b of
                  None \<Rightarrow> Inl load_failed
                | Some d \<Rightarrow> Inr (Some d))))"

text \<open>
  \<open>saveTokenData\<close> (lines 87-99): encrypt, write the file, then replace the module-level
  \<open>tokenData\<close>; an exception of \<open>encryptData\<close> leaves both untouched.
\<close>

definition saveTokenData :: "env \<Rightarrow> TokenData \<Rightarrow> world \<Rightarrow> (error + unit) \<times> world" where
  "saveTokenData e d w =
     (case encryptData (TOKEN_ENCRYPTION_KEY e) d of
        None \<Rightarrow> (Inl save_failed, w)
      | Some b \<Rightarrow> (Inr (), w\<lparr>tokenStore := Some (JSON_stringify b), tokenData := Some d\<rparr>))"

text \<open>
  The initial value of \<open>tokenData\<close> (lines 46-51): a static token from the environment is
  given four hours and an empty refresh token; otherwise the store is loaded.
\<close>

definition initial_tokenData :: "env \<Rightarrow> string \<Rightarrow> world \<Rightarrow> error + TokenData option" where
  "initial_tokenData e DROPBOX_ACCESS_TOKEN w =
     (if DROPBOX_ACCESS_TOKEN \<noteq> []
      then Inr (Some \<lparr>accessToken = DROPBOX_ACCESS_TOKEN, refreshToken = [],
                      expiresAt = clock w + 4 * 60 * 60 * 1000,
                      scope = [''files.content.read'', ''files.content.write''],
                      lastRefreshAttempt = None, refreshAttempts = None,
                      codeVerifier = None\<rparr>)
      else loadTokenData e w)"

section \<open>Refreshing\<close>

definition no_refresh_token :: error where
  "no_refresh_token = McpError InvalidRequest
     ''No refresh token available. Please authenticate first by visiting the authorization URL.''"

definition cooldown_error :: error where
  "cooldown_error = TokenRefreshError
     ''Too many refresh attempts. Please wait before trying again.'' ''RATE_LIMIT'' True"

definition max_retries_error :: error where
  "max_retries_error = TokenRefreshError REFRESH_FAILED ''MAX_RETRIES_EXCEEDED'' False"

text \<open>
  The cooldown test (lines 174-175). \<open>tokenData.lastRefreshAttempt && ...\<close> is falsy for
  \<open>undefined\<close> and for the number \<open>0\<close>.
\<close>

definition in_cooldown :: "RefreshConfig \<Rightarrow> int \<Rightarrow> TokenData \<Rightarrow> bool" where
  "in_cooldown cfg now td =
     (case lastRefreshAttempt td of
        None \<Rightarrow> False
      | Some t \<Rightarrow> t \<noteq> 0 \<and> now - t < retryDelay cfg)"

text \<open>\<open>tokenData.refreshAttempts || 0\<close>.\<close>

definition attempts_so_far :: "TokenData \<Rightarrow> int" where
  "attempts_so_far td = (case refreshAttempts td of None \<Rightarrow> 0 | Some n \<Rightarrow> n)"

text \<open>The catch block of \<open>refreshAccessToken\<close> (lines 225-266).\<close>

definition classify :: "thrown \<Rightarrow> error" where
  "classify x =
     (case x of
        AxiosError resp msg \<Rightarrow>
          (let statusCode = (case resp of None \<Rightarrow> 0 | Some r \<Rightarrow> status r);
               errorData = (case resp of None \<Rightarrow> None | Some r \<Rightarrow> error_field r)
           in if statusCode = 401 \<and> errorData = Some ''invalid_grant''
              then TokenRefreshError INVALID_GRANT ''INVALID_GRANT'' False
              else if statusCode = 429
              then TokenRefreshError RATE_LIMIT ''RATE_LIMIT'' True
              else if statusCode \<ge> 500
              then TokenRefreshError SERVER_ERROR ''SERVER_ERROR'' True
              else if resp = None
              then TokenRefreshError NETWORK_ERROR ''NETWORK_ERROR'' True
              else TokenRefreshError (''Token refresh failed: '' @ msg) ''UNKNOWN_ERROR'' True)
      | OtherError msg \<Rightarrow>
          TokenRefreshError (''Token refresh failed: '' @ msg) ''UNKNOWN_ERROR'' True
      | NonError \<Rightarrow>
          TokenRefreshError (''Token refresh failed: '' @ ''Unknown error occurred'')
            ''UNKNOWN_ERROR'' True)"

definition refresh_request :: "env \<Rightarrow> TokenData \<Rightarrow> TokenRequest" where
  "refresh_request e td =
     \<lparr>refresh_token = refreshToken td, grant_type = ''refresh_token'',
      client_id = validatedAppKey e, client_secret = validatedAppSecret e\<rparr>"

text \<open>
  \<open>refreshAccessToken\<close> (lines 164-267). The counters are written into the module-level
  object before the maximum is tested; the request and \<open>saveTokenData\<close> both sit inside
  the \<open>try\<close>, so a failed save is classified by the same catch block.
\<close>

definition refreshAccessToken :: "env \<Rightarrow> world \<Rightarrow> (error + string) \<times> world" where
  "refreshAccessToken e w =
     (case tokenData w of
        None \<Rightarrow> (Inl no_refresh_token, w)
      | Some td \<Rightarrow>
          if refreshToken td = [] then (Inl no_refresh_token, w)
          else
            let now = clock w in
            if in_cooldown (TOKEN_REFRESH_CONFIG e) now td then (Inl cooldown_error, w)
            else
              let td1 = td\<lparr>lastRefreshAttempt := Some now,
                          refreshAttempts := Some (attempts_so_far td + 1)\<rparr>;
                  w1 = w\<lparr>tokenData := Some td1\<rparr>
              in if attempts_so_far td1 > maxRetries (TOKEN_REFRESH_CONFIG e)
                 then (Inl max_retries_error, w1)
                 else
                   (case axios_post e (refresh_request e td1) w1 of
                      (Rejected x, w2) \<Rightarrow> (Inl (classify x), w2)
                    | (Resolved r, w2) \<Rightarrow>
                        let newTokenData =
                              td1\<lparr>accessToken := access_token r,
                                  expiresAt := clock w2 + expires_in r * 1000,
                                  refreshAttempts := Some 0,
                                  lastRefreshAttempt := None\<rparr>
                        in (case saveTokenData e newTokenData w2 of
                              (Inl err, w3) \<Rightarrow> (Inl (classify (OtherError (message_of err))), w3)
                            | (Inr _, w3) \<Rightarrow> (Inr (accessToken newTokenData), w3))))"

section \<open>Getting a valid token\<close>

definition no_token_data :: error where
  "no_token_data = McpError InvalidRequest
     ''No token data available. Please authenticate first by visiting the authorization URL.''"

definition failed_after :: "nat \<Rightarrow> string \<Rightarrow> error" where
  "failed_after retryCount errorMessage = McpError InvalidRequest
     (''Token refresh failed after '' @ string_of_nat retryCount @ '' attempts: '' @ errorMessage)"

text \<open>
  The \<open>while\<close> loop of \<open>getValidAccessToken\<close> (lines 283-314), with \<open>retryCount\<close> as its
  argument. An iteration returns the refreshed token, throws, or sleeps and goes round
  again with \<open>retryCount + 1\<close>, which stays below \<open>maxRetries\<close>.
\<close>

function retry_loop :: "env \<Rightarrow> nat \<Rightarrow> world \<Rightarrow> (error + string) \<times> world" where
  "retry_loop e retryCount w =
     (if int retryCount < maxRetries (TOKEN_REFRESH_CONFIG e)
      then
        (case refreshAccessToken e w of
           (Inr token, w') \<Rightarrow> (Inr token, w')
         | (Inl err, w') \<Rightarrow>
             (case err of
                TokenRefreshError msg code retryable \<Rightarrow>
                  if \<not> retryable then (Inl (McpError InvalidRequest msg), w')
                  else if int (Suc retryCount) < maxRetries (TOKEN_REFRESH_CONFIG e)
                  then retry_loop e (Suc retryCount)
                         (sleep e (retryDelay (TOKEN_REFRESH_CONFIG e)) w')
                  else (Inl (failed_after (Suc retryCount) msg), w')
              | McpError c msg \<Rightarrow> (Inl (failed_after retryCount (message_of err)), w')))
      else (Inl (McpError InvalidRequest REFRESH_FAILED), w))"
  by pat_completeness auto
termination
  by (relation "measure (\<lambda>(e, retryCount, w). nat (maxRetries (TOKEN_REFRESH_CONFIG e) - int retryCount))")
    auto

text \<open>
  \<open>getValidAccessToken\<close> (lines 269-318). The console message is not part of the state.
\<close>

definition getValidAccessToken :: "env \<Rightarrow> world \<Rightarrow> (error + string) \<times> world" where
  "getValidAccessToken e w =
     (case tokenData w of
        None \<Rightarrow> (Inl no_token_data, w)
      | Some td \<Rightarrow>
          let refreshThreshold = thresholdMinutes (TOKEN_REFRESH_CONFIG e) * 60 * 1000 in
          if clock w \<ge> expiresAt td - refreshThreshold
          then retry_loop e 0 w
          else (Inr (accessToken td), w))"

section \<open>Histories of calls\<close>

text \<open>
  What happens to the state over the life of the process: \<open>refreshAccessToken\<close> and
  \<open>getValidAccessToken\<close> are called, and time passes between the calls.
\<close>

datatype call = Refresh | GetValid | Wait nat

fun run :: "env \<Rightarrow> call list \<Rightarrow> world \<Rightarrow> world" where
  "run e [] w = w"
| "run e (Refresh # cs) w = run e cs (snd (refreshAccessToken e w))"
| "run e (GetValid # cs) w = run e cs (snd (getValidAccessToken e w))"
| "run e (Wait d # cs) w = run e cs (w\<lparr>clock := clock w + int d\<rparr>)"

text \<open>
  A state in which no refresh attempt is recorded. Every state the module starts from is
  one: the static-token state (lines 46-51), the state built by the code exchange
  (lines 137-143) and the state a successful refresh saves (lines 215-221) carry no
  \<open>lastRefreshAttempt\<close>, and the token file only ever holds the latter two. The clock
  counts milliseconds since 1970 and is positive.
\<close>

definition no_attempt_recorded :: "world \<Rightarrow> bool" where
  "no_attempt_recorded w =
     (0 < clock w \<and>
      (case tokenData w of None \<Rightarrow> True | Some td \<Rightarrow> lastRefreshAttempt td = None))"

text \<open>
  A recorded attempt is one that \<open>refreshAccessToken\<close> wrote at line 184: it lies behind
  the guard on the refresh token, and its time is a past reading of the clock.
\<close>

definition attempts_well_recorded :: "world \<Rightarrow> bool" where
  "attempts_well_recorded w =
     (0 < clock w \<and>
      (case tokenData w of
         None \<Rightarrow> True
       | Some td \<Rightarrow>
           (case lastRefreshAttempt td of
              None \<Rightarrow> True
            | Some t \<Rightarrow> refreshToken td \<noteq> [] \<and> 0 < t \<and> t \<le> clock w)))"

section \<open>Reading results\<close>

text \<open>
  \<open>error instanceof TokenRefreshError\<close> with the given \<open>code\<close> and \<open>retryable\<close> flag,
  for a call that threw.
\<close>

definition thrown_as :: "(error + string) \<Rightarrow> string \<Rightarrow> bool \<Rightarrow> bool" where
  "thrown_as res code retry =
     (case res of
        Inl (TokenRefreshError _ c r) \<Rightarrow> c = code \<and> r = retry
      | Inl (McpError _ _) \<Rightarrow> False
      | Inr _ \<Rightarrow> False)"

text \<open>
  The test of the retry loop's catch block: \<open>error instanceof TokenRefreshError\<close> and
  \<open>error.retryable\<close>.
\<close>

definition retryable :: "error \<Rightarrow> bool" where
  "retryable err = (case err of TokenRefreshError _ _ r \<Rightarrow> r | McpError _ _ \<Rightarrow> False)"

text \<open>The provider's answer is a response with status 503.\<close>

definition answers_503 :: "http_outcome \<Rightarrow> bool" where
  "answers_503 out =
     (case out of
        Rejected (AxiosError (Some r) _) \<Rightarrow> status r = 503
      | _ \<Rightarrow> False)"

definition server_error :: error where
  "server_error = TokenRefreshError SERVER_ERROR ''SERVER_ERROR'' True"

section \<open>Concrete configurations\<close>

text \<open>The values of the environment template: 5 minutes, 3 retries, 1000 ms.\<close>

definition template_config :: RefreshConfig where
  "template_config = \<lparr>thresholdMinutes = 5, maxRetries = 3, retryDelay = 1000\<rparr>"

definition env_answering :: "http_outcome \<Rightarrow> env" where
  "env_answering out =
     \<lparr>TOKEN_REFRESH_CONFIG = template_config,
      validatedAppKey = ''key'', validatedAppSecret = ''secret'',
      TOKEN_ENCRYPTION_KEY = ''0123456789abcdef0123456789abcdef'',
      provider = (\<lambda>k. out), elapsed = (\<lambda>k. 20)\<rparr>"

definition answer :: "int \<Rightarrow> string option \<Rightarrow> http_outcome" where
  "answer st body =
     Rejected (AxiosError (Some \<lparr>status = st, error_field = body\<rparr>) ''Request failed'')"

definition no_answer :: http_outcome where
  "no_answer = Rejected (AxiosError None ''timeout of 10000ms exceeded'')"

definition oauth_token :: TokenData where
  "oauth_token =
     \<lparr>accessToken = ''sl.old'', refreshToken = ''rt'', expiresAt = 5000000,
      scope = [''files.content.read''], lastRefreshAttempt = None,
      refreshAttempts = None, codeVerifier = Some ''verifier''\<rparr>"

definition world_at :: "int \<Rightarrow> TokenData \<Rightarrow> world" where
  "world_at now td = \<lparr>tokenData = Some td, tokenStore = None, clock = now, trace = []\<rparr>"

text \<open>
  The state the module builds for a static \<open>DROPBOX_ACCESS_TOKEN\<close>: no refresh token.
\<close>

definition static_token :: TokenData where
  "static_token =
     \<lparr>accessToken = ''sl.static'', refreshToken = [], expiresAt = 14400000,
      scope = [''files.content.read'', ''files.content.write''],
      lastRefreshAttempt = None, refreshAttempts = None, codeVerifier = None\<rparr>"

text \<open>A provider that grants the refresh, and the state before anything was stored.\<close>

definition granted :: http_outcome where
  "granted = Resolved \<lparr>access_token = ''sl.new'', expires_in = 14400\<rparr>"

definition cold_start :: world where
  "cold_start = \<lparr>tokenData = None, tokenStore = None, clock = 0, trace = []\<rparr>"

text \<open>
  The request the example token sends, and a configuration whose retry delay is beyond
  what a timer honours.
\<close>

definition post_rt :: event where
  "post_rt = Post \<lparr>refresh_token = ''rt'', grant_type = ''refresh_token'',
                   client_id = ''key'', client_secret = ''secret''\<rparr>"

definition patient_env :: env where
  "patient_env = (env_answering (answer 503 None))
     \<lparr>TOKEN_REFRESH_CONFIG := template_config\<lparr>retryDelay := 3000000000\<rparr>\<rparr>"

section \<open>Error classification of a refresh\<close>

lemma refresh_rejected:
  assumes "tokenData w = Some td" and "refreshToken td \<noteq> []"
    and "\<not> in_cooldown (TOKEN_REFRESH_CONFIG e) (clock w) td"
    and "attempts_so_far td + 1 \<le> maxRetries (TOKEN_REFRESH_CONFIG e)"
    and "provider e (posts w) = Rejected x"
  shows "refreshAccessToken e w =
    (Inl (classify x),
     w\<lparr>tokenData := Some (td\<lparr>lastRefreshAttempt := Some (clock w),
                               refreshAttempts := Some (attempts_so_far td + 1)\<rparr>),
       clock := clock w + int (elapsed e (length (trace w))),
       trace := trace w @ [Post (refresh_request e td)]\<rparr>)"
  using assms
  by (simp add: refreshAccessToken_def Let_def attempts_so_far_def axios_post_def posts_def
      refresh_request_def)

text \<open>
  Claim C1. When a refresh reaches the provider and the request is rejected, the error
  thrown is: non-retryable \<open>INVALID_GRANT\<close> for status 401 with body error
  \<open>invalid_grant\<close>; retryable \<open>RATE_LIMIT\<close> for status 429; retryable \<open>SERVER_ERROR\<close>
  for a status of 500 or more; retryable \<open>NETWORK_ERROR\<close> for an Axios error without a
  response; retryable \<open>UNKNOWN_ERROR\<close> for every other rejection.
\<close>

theorem refresh_error_classification:
  assumes "tokenData w = Some td" and "refreshToken td \<noteq> []"
    and "\<not> in_cooldown (TOKEN_REFRESH_CONFIG e) (clock w) td"
    and "attempts_so_far td + 1 \<le> maxRetries (TOKEN_REFRESH_CONFIG e)"
    and "provider e (posts w) = Rejected x"
  shows "(x = AxiosError (Some r) m \<and> status r = 401 \<and> error_field r = Some ''invalid_grant''
            \<longrightarrow> thrown_as (fst (refreshAccessToken e w)) ''INVALID_GRANT'' False)
       \<and> (x = AxiosError (Some r) m \<and> status r = 429
            \<longrightarrow> thrown_as (fst (refreshAccessToken e w)) ''RATE_LIMIT'' True)
       \<and> (x = AxiosError (Some r) m \<and> status r \<ge> 500
            \<longrightarrow> thrown_as (fst (refreshAccessToken e w)) ''SERVER_ERROR'' True)
       \<and> (x = AxiosError None m
            \<longrightarrow> thrown_as (fst (refreshAccessToken e w)) ''NETWORK_ERROR'' True)
       \<and> ((x = AxiosError (Some r) m
              \<and> \<not> (status r = 401 \<and> error_field r = Some ''invalid_grant'')
              \<and> status r \<noteq> 429 \<and> status r < 500)
            \<or> x = OtherError m \<or> x = NonError
            \<longrightarrow> thrown_as (fst (refreshAccessToken e w)) ''UNKNOWN_ERROR'' True)"
proof -
  have "fst (refreshAccessToken e w) = Inl (classify x)"
    using refresh_rejected [OF assms] by simp
  then show ?thesis
    by (auto simp: thrown_as_def classify_def Let_def)
qed

theorem refresh_error_classification_witness:
  "tokenData (world_at 4900000 oauth_token) = Some oauth_token
   \<and> refreshToken oauth_token \<noteq> []
   \<and> \<not> in_cooldown template_config 4900000 oauth_token
   \<and> attempts_so_far oauth_token + 1 \<le> maxRetries template_config
   \<and> thrown_as (fst (refreshAccessToken (env_answering (answer 401 (Some ''invalid_grant'')))
         (world_at 4900000 oauth_token))) ''INVALID_GRANT'' False
   \<and> thrown_as (fst (refreshAccessToken (env_answering (answer 429 None))
         (world_at 4900000 oauth_token))) ''RATE_LIMIT'' True
   \<and> thrown_as (fst (refreshAccessToken (env_answering (answer 503 None))
         (world_at 4900000 oauth_token))) ''SERVER_ERROR'' True
   \<and> thrown_as (fst (refreshAccessToken (env_answering no_answer)
         (world_at 4900000 oauth_token))) ''NETWORK_ERROR'' True
   \<and> thrown_as (fst (refreshAccessToken (env_answering (answer 400 (Some ''invalid_request'')))
         (world_at 4900000 oauth_token))) ''UNKNOWN_ERROR'' True"
proof -
  have p: "tokenData (world_at 4900000 oauth_token) = Some oauth_token"
    "refreshToken oauth_token \<noteq> []"
    "\<And>out. \<not> in_cooldown (TOKEN_REFRESH_CONFIG (env_answering out))
        (clock (world_at 4900000 oauth_token)) oauth_token"
    "\<And>out. attempts_so_far oauth_token + 1 \<le> maxRetries (TOKEN_REFRESH_CONFIG (env_answering out))"
    "\<And>out. provider (env_answering out) (posts (world_at 4900000 oauth_token)) = out"
    by (simp_all add: world_at_def oauth_token_def in_cooldown_def attempts_so_far_def
        env_answering_def template_config_def)
  have q: "\<not> in_cooldown template_config 4900000 oauth_token"
    "attempts_so_far oauth_token + 1 \<le> maxRetries template_config"
    by (simp_all add: oauth_token_def in_cooldown_def attempts_so_far_def template_config_def)
  note c = refresh_error_classification [OF p(1) p(2) p(3) p(4)]
  show ?thesis
    using p(1) p(2) q
      c [of "answer 401 (Some ''invalid_grant'')" _
           "\<lparr>status = 401, error_field = Some ''invalid_grant''\<rparr>" "''Request failed''"]
      c [of "answer 429 None" _ "\<lparr>status = 429, error_field = None\<rparr>" "''Request failed''"]
      c [of "answer 503 None" _ "\<lparr>status = 503, error_field = None\<rparr>" "''Request failed''"]
      c [of no_answer _ _ "''timeout of 10000ms exceeded''"]
      c [of "answer 400 (Some ''invalid_request'')" _
           "\<lparr>status = 400, error_field = Some ''invalid_request''\<rparr>" "''Request failed''"]
    by (simp add: p(5) answer_def no_answer_def)
qed

section \<open>A token that is still fresh\<close>

text \<open>
  Claim C2. When \<open>expiresAt\<close> minus the refresh threshold is strictly later than the
  current time, \<open>getValidAccessToken\<close> returns the stored access token and the whole
  state is as before: no request in the log, the same \<open>tokenData\<close>, the same file.
\<close>

theorem fresh_token_returned_unchanged:
  assumes "tokenData w = Some td"
    and "expiresAt td - thresholdMinutes (TOKEN_REFRESH_CONFIG e) * 60 * 1000 > clock w"
  shows "getValidAccessToken e w = (Inr (accessToken td), w)"
  using assms by (simp add: getValidAccessToken_def Let_def)

theorem fresh_token_returned_unchanged_witness:
  "tokenData (world_at 4000000 oauth_token) = Some oauth_token
   \<and> expiresAt oauth_token - thresholdMinutes template_config * 60 * 1000 > 4000000
   \<and> getValidAccessToken (env_answering no_answer) (world_at 4000000 oauth_token)
       = (Inr ''sl.old'', world_at 4000000 oauth_token)"
  using fresh_token_returned_unchanged
    [of "world_at 4000000 oauth_token" oauth_token "env_answering no_answer"]
  by (simp add: world_at_def oauth_token_def env_answering_def template_config_def)

section \<open>The cooldown\<close>

lemma start_well_recorded: "no_attempt_recorded w \<Longrightarrow> attempts_well_recorded w"
  by (simp add: no_attempt_recorded_def attempts_well_recorded_def split: option.splits)

lemma refresh_well_recorded:
  "attempts_well_recorded w \<Longrightarrow> attempts_well_recorded (snd (refreshAccessToken e w))"
  by (auto simp: attempts_well_recorded_def refreshAccessToken_def Let_def axios_post_def
      saveTokenData_def split: option.splits http_outcome.splits if_splits)

lemma sleep_well_recorded:
  "attempts_well_recorded w \<Longrightarrow> attempts_well_recorded (sleep e d w)"
  by (auto simp: attempts_well_recorded_def sleep_def timer_delay_def split: option.splits)

lemma wait_well_recorded:
  "attempts_well_recorded w \<Longrightarrow> attempts_well_recorded (w\<lparr>clock := clock w + int d\<rparr>)"
  by (auto simp: attempts_well_recorded_def split: option.splits)

lemma retry_loop_well_recorded:
  "attempts_well_recorded w \<Longrightarrow> attempts_well_recorded (snd (retry_loop e k w))"
proof (induction e k w rule: retry_loop.induct)
  case (1 e retryCount w)
  obtain r w' where rw: "refreshAccessToken e w = (r, w')"
    by (cases "refreshAccessToken e w")
  have w': "attempts_well_recorded w'"
    using refresh_well_recorded [OF "1.prems", of e] rw by simp
  show ?case
  proof (cases "int retryCount < maxRetries (TOKEN_REFRESH_CONFIG e)")
    case False
    with "1.prems" show ?thesis by (subst retry_loop.simps) simp
  next
    case True
    show ?thesis
    proof (cases r)
      case (Inr token)
      with True rw w' show ?thesis by (subst retry_loop.simps) simp
    next
      case (Inl err)
      show ?thesis
      proof (cases err)
        case (McpError c msg)
        with True rw w' Inl show ?thesis by (subst retry_loop.simps) simp
      next
        case (TokenRefreshError msg code retryable)
        show ?thesis
        proof (cases "retryable \<and> int (Suc retryCount) < maxRetries (TOKEN_REFRESH_CONFIG e)")
          case False
          with True rw w' Inl TokenRefreshError show ?thesis
            by (subst retry_loop.simps) auto
        next
          case go: True
          have "attempts_well_recorded
                  (snd (retry_loop e (Suc retryCount) (sleep e (retryDelay (TOKEN_REFRESH_CONFIG e)) w')))"
            using "1.IH" [OF True rw [symmetric] Inl TokenRefreshError] go
              sleep_well_recorded [OF w']
            by simp
          with True rw Inl TokenRefreshError go show ?thesis
            by (subst retry_loop.simps) simp
        qed
      qed
    qed
  qed
qed

lemma getValid_well_recorded:
  "attempts_well_recorded w \<Longrightarrow> attempts_well_recorded (snd (getValidAccessToken e w))"
  by (simp add: getValidAccessToken_def Let_def retry_loop_well_recorded
      del: retry_loop.simps split: option.splits)

lemma run_well_recorded:
  "attempts_well_recorded w \<Longrightarrow> attempts_well_recorded (run e cs w)"
proof (induction cs arbitrary: w)
  case Nil
  then show ?case by simp
next
  case (Cons c cs)
  then show ?case
    by (cases c) (simp_all add: refresh_well_recorded getValid_well_recorded wait_well_recorded)
qed

text \<open>
  Claim C3. In every state the module reaches, from a start without a recorded attempt
  and through any calls of \<open>refreshAccessToken\<close> and \<open>getValidAccessToken\<close> with
  time passing between them: when \<open>lastRefreshAttempt\<close> is set and the current time is
  strictly less than the retry delay after it, \<open>refreshAccessToken\<close> fails with the
  retryable \<open>RATE_LIMIT\<close> error and returns the state as it was, so no request is
  logged.
\<close>

theorem cooldown_fails_without_request:
  assumes "no_attempt_recorded w0"
    and "tokenData (run e calls w0) = Some td"
    and "lastRefreshAttempt td = Some t"
    and "clock (run e calls w0) - t < retryDelay (TOKEN_REFRESH_CONFIG e)"
  shows "refreshAccessToken e (run e calls w0) = (Inl cooldown_error, run e calls w0)
         \<and> thrown_as (fst (refreshAccessToken e (run e calls w0))) ''RATE_LIMIT'' True"
proof -
  have "attempts_well_recorded (run e calls w0)"
    by (rule run_well_recorded [OF start_well_recorded [OF assms(1)]])
  with assms(2,3) have "refreshToken td \<noteq> []" and "t \<noteq> 0"
    by (simp_all add: attempts_well_recorded_def)
  with assms(2-4) show ?thesis
    by (simp add: refreshAccessToken_def in_cooldown_def Let_def cooldown_error_def
        thrown_as_def)
qed

theorem cooldown_fails_without_request_witness:
  "no_attempt_recorded (world_at 4900000 oauth_token)
   \<and> run (env_answering (answer 503 None)) [Refresh, Wait 500] (world_at 4900000 oauth_token)
       = \<lparr>tokenData = Some (oauth_token\<lparr>lastRefreshAttempt := Some 4900000,
                                          refreshAttempts := Some 1\<rparr>),
          tokenStore = None, clock = 4900520, trace = [post_rt]\<rparr>
   \<and> (4900520 :: int) - 4900000 < retryDelay (TOKEN_REFRESH_CONFIG (env_answering (answer 503 None)))
   \<and> refreshAccessToken (env_answering (answer 503 None))
        (run (env_answering (answer 503 None)) [Refresh, Wait 500] (world_at 4900000 oauth_token))
       = (Inl cooldown_error,
          \<lparr>tokenData = Some (oauth_token\<lparr>lastRefreshAttempt := Some 4900000,
                                          refreshAttempts := Some 1\<rparr>),
           tokenStore = None, clock = 4900520, trace = [post_rt]\<rparr>)"
proof -
  let ?e = "env_answering (answer 503 None)"
  let ?w0 = "world_at 4900000 oauth_token"
  let ?td = "oauth_token\<lparr>lastRefreshAttempt := Some 4900000, refreshAttempts := Some 1\<rparr>"
  have s: "no_attempt_recorded ?w0"
    by (simp add: no_attempt_recorded_def world_at_def oauth_token_def)
  have r: "run ?e [Refresh, Wait 500] ?w0
       = \<lparr>tokenData = Some ?td, tokenStore = None, clock = 4900520, trace = [post_rt]\<rparr>"
    by (simp add: refreshAccessToken_def Let_def world_at_def oauth_token_def in_cooldown_def
        attempts_so_far_def env_answering_def template_config_def axios_post_def posts_def
        answer_def classify_def refresh_request_def post_rt_def)
  have t: "tokenData (run ?e [Refresh, Wait 500] ?w0) = Some ?td"
    "lastRefreshAttempt ?td = Some 4900000"
    "clock (run ?e [Refresh, Wait 500] ?w0) - 4900000 < retryDelay (TOKEN_REFRESH_CONFIG ?e)"
    unfolding r by (simp_all add: env_answering_def template_config_def)
  have c: "refreshAccessToken ?e (run ?e [Refresh, Wait 500] ?w0)
       = (Inl cooldown_error, run ?e [Refresh, Wait 500] ?w0)"
    using cooldown_fails_without_request [OF s t] by (rule conjunct1)
  have c': "refreshAccessToken ?e (run ?e [Refresh, Wait 500] ?w0)
       = (Inl cooldown_error,
          \<lparr>tokenData = Some ?td, tokenStore = None, clock = 4900520, trace = [post_rt]\<rparr>)"
    by (subst c) (simp only: r)
  have d: "(4900520 :: int) - 4900000 < retryDelay (TOKEN_REFRESH_CONFIG ?e)"
    by (simp add: env_answering_def template_config_def)
  from s r d c' show ?thesis by (intro conjI)
qed

lemma classify_not_cooldown: "classify x \<noteq> cooldown_error"
  by (simp add: classify_def cooldown_error_def Let_def RATE_LIMIT_def
      split: thrown.splits option.splits)

text \<open>
  Claim C10. When \<open>refreshAccessToken\<close> fails with the cooldown error, the whole state
  is as before: \<open>refreshAttempts\<close> and \<open>lastRefreshAttempt\<close> keep their values, the
  file and the request log are untouched.
\<close>

theorem cooldown_failure_leaves_state:
  assumes "refreshAccessToken e w = (Inl cooldown_error, w')"
  shows "w' = w"
  using assms classify_not_cooldown
  by (auto simp: refreshAccessToken_def Let_def no_refresh_token_def cooldown_error_def
      max_retries_error_def saveTokenData_def axios_post_def
      split: option.splits if_splits http_outcome.splits prod.splits sum.splits)

theorem cooldown_failure_leaves_state_witness:
  "refreshAccessToken (env_answering (answer 429 None))
        (world_at 4900000 (oauth_token\<lparr>lastRefreshAttempt := Some 4899500\<rparr>))
      = (Inl cooldown_error, world_at 4900000 (oauth_token\<lparr>lastRefreshAttempt := Some 4899500\<rparr>))
   \<and> snd (refreshAccessToken (env_answering (answer 429 None))
        (world_at 4900000 (oauth_token\<lparr>lastRefreshAttempt := Some 4899500\<rparr>)))
      = world_at 4900000 (oauth_token\<lparr>lastRefreshAttempt := Some 4899500\<rparr>)"
proof -
  let ?w = "world_at 4900000 (oauth_token\<lparr>lastRefreshAttempt := Some 4899500\<rparr>)"
  let ?e = "env_answering (answer 429 None)"
  have r: "refreshAccessToken ?e ?w = (Inl cooldown_error, snd (refreshAccessToken ?e ?w))"
    by (simp add: refreshAccessToken_def in_cooldown_def Let_def world_at_def oauth_token_def
        env_answering_def template_config_def)
  from cooldown_failure_leaves_state [OF r] r show ?thesis by simp
qed

section \<open>Counting attempts\<close>

text \<open>
  Claim C4, as amended. For every state with a non-empty refresh token that is outside
  the cooldown window, \<open>refreshAccessToken\<close> writes the incremented counter and the
  attempt's time first. When the incremented counter exceeds the maximum the call fails
  with the non-retryable \<open>MAX_RETRIES_EXCEEDED\<close> error, the counters stay written and
  no request is logged. Otherwise exactly one request is logged, and whenever the call
  then fails the state still holds the incremented counter.
\<close>

theorem attempt_counted_before_request:
  assumes "tokenData w = Some td" and "refreshToken td \<noteq> []"
    and "\<not> in_cooldown (TOKEN_REFRESH_CONFIG e) (clock w) td"
  shows "(attempts_so_far td + 1 > maxRetries (TOKEN_REFRESH_CONFIG e) \<longrightarrow>
            refreshAccessToken e w
              = (Inl max_retries_error,
                 w\<lparr>tokenData := Some (td\<lparr>lastRefreshAttempt := Some (clock w),
                                           refreshAttempts := Some (attempts_so_far td + 1)\<rparr>)\<rparr>)
            \<and> thrown_as (fst (refreshAccessToken e w)) ''MAX_RETRIES_EXCEEDED'' False
            \<and> trace (snd (refreshAccessToken e w)) = trace w)
       \<and> (attempts_so_far td + 1 \<le> maxRetries (TOKEN_REFRESH_CONFIG e) \<longrightarrow>
            trace (snd (refreshAccessToken e w)) = trace w @ [Post (refresh_request e td)]
            \<and> (isl (fst (refreshAccessToken e w)) \<longrightarrow>
                 tokenData (snd (refreshAccessToken e w))
                   = Some (td\<lparr>lastRefreshAttempt := Some (clock w),
                               refreshAttempts := Some (attempts_so_far td + 1)\<rparr>)))"
  using assms
  by (auto simp: refreshAccessToken_def Let_def attempts_so_far_def max_retries_error_def
      thrown_as_def axios_post_def saveTokenData_def refresh_request_def
      split: http_outcome.splits option.splits)

theorem attempt_counted_before_request_witness:
  "tokenData (world_at 4900000 (oauth_token\<lparr>refreshAttempts := Some 3\<rparr>))
      = Some (oauth_token\<lparr>refreshAttempts := Some 3\<rparr>)
   \<and> refreshToken (oauth_token\<lparr>refreshAttempts := Some 3\<rparr>) \<noteq> []
   \<and> \<not> in_cooldown template_config 4900000 (oauth_token\<lparr>refreshAttempts := Some 3\<rparr>)
   \<and> attempts_so_far (oauth_token\<lparr>refreshAttempts := Some 3\<rparr>) + 1 > maxRetries template_config
   \<and> refreshAccessToken (env_answering (answer 503 None))
        (world_at 4900000 (oauth_token\<lparr>refreshAttempts := Some 3\<rparr>))
      = (Inl max_retries_error,
         world_at 4900000 (oauth_token\<lparr>lastRefreshAttempt := Some 4900000, refreshAttempts := Some 4\<rparr>))
   \<and> tokenData (world_at 4900000 oauth_token) = Some oauth_token
   \<and> \<not> in_cooldown template_config 4900000 oauth_token
   \<and> attempts_so_far oauth_token + 1 \<le> maxRetries template_config
   \<and> isl (fst (refreshAccessToken (env_answering (answer 503 None)) (world_at 4900000 oauth_token)))
   \<and> trace (snd (refreshAccessToken (env_answering (answer 503 None)) (world_at 4900000 oauth_token)))
      = [Post \<lparr>refresh_token = ''rt'', grant_type = ''refresh_token'', client_id = ''key'',
               client_secret = ''secret''\<rparr>]
   \<and> tokenData (snd (refreshAccessToken (env_answering (answer 503 None)) (world_at 4900000 oauth_token)))
      = Some (oauth_token\<lparr>lastRefreshAttempt := Some 4900000, refreshAttempts := Some 1\<rparr>)"
proof -
  let ?e = "env_answering (answer 503 None)"
  let ?td = "oauth_token\<lparr>refreshAttempts := Some 3\<rparr>"
  have a: "tokenData (world_at 4900000 ?td) = Some ?td" "refreshToken ?td \<noteq> []"
    "\<not> in_cooldown (TOKEN_REFRESH_CONFIG ?e) (clock (world_at 4900000 ?td)) ?td"
    by (simp_all add: world_at_def oauth_token_def in_cooldown_def)
  have b: "tokenData (world_at 4900000 oauth_token) = Some oauth_token" "refreshToken oauth_token \<noteq> []"
    "\<not> in_cooldown (TOKEN_REFRESH_CONFIG ?e) (clock (world_at 4900000 oauth_token)) oauth_token"
    by (simp_all add: world_at_def oauth_token_def in_cooldown_def)
  have i: "isl (fst (refreshAccessToken ?e (world_at 4900000 oauth_token)))"
    by (simp add: refreshAccessToken_def Let_def world_at_def oauth_token_def in_cooldown_def
        attempts_so_far_def env_answering_def template_config_def axios_post_def posts_def answer_def)
  show ?thesis
    using attempt_counted_before_request [OF a] attempt_counted_before_request [OF b] i
    by (simp add: world_at_def oauth_token_def in_cooldown_def attempts_so_far_def
        env_answering_def template_config_def refresh_request_def)
qed

text \<open>
  The claim as written, for every state outside the cooldown window, fails on the state
  built for a static access token: it has no refresh token, so the call throws the guard's
  \<open>McpError\<close> and counts nothing, also where the incremented counter would exceed the
  maximum.
\<close>

theorem static_token_not_counted_counterexample:
  "initial_tokenData (env_answering (answer 503 None)) ''sl.static''
       cold_start = Inr (Some static_token)
   \<and> \<not> in_cooldown template_config 14400000 static_token
   \<and> refreshAccessToken (env_answering (answer 503 None)) (world_at 14400000 static_token)
      = (Inl no_refresh_token, world_at 14400000 static_token)
   \<and> refreshAttempts static_token = None
   \<and> \<not> in_cooldown template_config 14400000 (static_token\<lparr>refreshAttempts := Some 3\<rparr>)
   \<and> attempts_so_far (static_token\<lparr>refreshAttempts := Some 3\<rparr>) + 1 > maxRetries template_config
   \<and> \<not> thrown_as (fst (refreshAccessToken (env_answering (answer 503 None))
          (world_at 14400000 (static_token\<lparr>refreshAttempts := Some 3\<rparr>)))) ''MAX_RETRIES_EXCEEDED'' False"
  by (simp add: initial_tokenData_def cold_start_def refreshAccessToken_def static_token_def world_at_def
      in_cooldown_def attempts_so_far_def template_config_def thrown_as_def no_refresh_token_def)

section \<open>A successful refresh\<close>

text \<open>
  Claim C5. When \<open>refreshAccessToken\<close> returns a token, the provider granted the
  request, and the new state is the old one with the new access token, the expiry at the
  time of the response plus \<open>expires_in * 1000\<close>, \<open>refreshAttempts\<close> at 0 and
  \<open>lastRefreshAttempt\<close> cleared. It is the module-level state, its encryption is the
  content of the token file, and \<open>loadTokenData\<close> reads it back.
\<close>

theorem successful_refresh_resets_and_persists:
  assumes "refreshAccessToken e w = (Inr token, w')" and "tokenData w = Some td"
  shows "\<exists>r new. provider e (posts w) = Resolved r
           \<and> new = td\<lparr>accessToken := access_token r,
                       expiresAt := clock w' + expires_in r * 1000,
                       refreshAttempts := Some 0,
                       lastRefreshAttempt := None\<rparr>
           \<and> token = access_token r
           \<and> tokenData w' = Some new
           \<and> refreshAttempts new = Some 0
           \<and> lastRefreshAttempt new = None
           \<and> (\<exists>b. encryptData (TOKEN_ENCRYPTION_KEY e) new = Some b
                  \<and> tokenStore w' = Some (JSON_stringify b))
           \<and> loadTokenData e w' = Inr (Some new)"
  using assms
  by (auto simp: refreshAccessToken_def Let_def saveTokenData_def axios_post_def posts_def
      encryptData_def decryptData_def loadTokenData_def JSON_parse_def JSON_stringify_def
      split: option.splits if_splits http_outcome.splits)

theorem successful_refresh_resets_and_persists_witness:
  "refreshAccessToken (env_answering granted)
       (world_at 4900000 (oauth_token\<lparr>lastRefreshAttempt := Some 4000000, refreshAttempts := Some 2\<rparr>))
     = (Inr ''sl.new'',
        \<lparr>tokenData = Some (oauth_token\<lparr>accessToken := ''sl.new'', expiresAt := 19300020,
                                       refreshAttempts := Some 0\<rparr>),
         tokenStore = Some (Stringified (Sealed ''0123456789abcdef0123456789abcdef''
                        (oauth_token\<lparr>accessToken := ''sl.new'', expiresAt := 19300020,
                                     refreshAttempts := Some 0\<rparr>))),
         clock = 4900020,
         trace = [Post \<lparr>refresh_token = ''rt'', grant_type = ''refresh_token'',
                        client_id = ''key'', client_secret = ''secret''\<rparr>]\<rparr>)
   \<and> loadTokenData (env_answering granted)
        (snd (refreshAccessToken (env_answering granted)
          (world_at 4900000 (oauth_token\<lparr>lastRefreshAttempt := Some 4000000, refreshAttempts := Some 2\<rparr>))))
     = Inr (Some (oauth_token\<lparr>accessToken := ''sl.new'', expiresAt := 19300020,
                               refreshAttempts := Some 0\<rparr>))"
proof -
  let ?e = "env_answering granted"
  let ?td = "oauth_token\<lparr>lastRefreshAttempt := Some 4000000, refreshAttempts := Some 2\<rparr>"
  let ?w = "world_at 4900000 ?td"
  have r: "refreshAccessToken ?e ?w = (Inr ''sl.new'', snd (refreshAccessToken ?e ?w))"
    by (simp add: refreshAccessToken_def Let_def world_at_def oauth_token_def in_cooldown_def
        attempts_so_far_def env_answering_def template_config_def axios_post_def posts_def
        granted_def saveTokenData_def encryptData_def valid_key_def)
  have t: "tokenData ?w = Some ?td"
    by (simp add: world_at_def)
  have s: "snd (refreshAccessToken ?e ?w) =
     \<lparr>tokenData = Some (oauth_token\<lparr>accessToken := ''sl.new'', expiresAt := 19300020,
                                       refreshAttempts := Some 0\<rparr>),
         tokenStore = Some (Stringified (Sealed ''0123456789abcdef0123456789abcdef''
                        (oauth_token\<lparr>accessToken := ''sl.new'', expiresAt := 19300020,
                                     refreshAttempts := Some 0\<rparr>))),
         clock = 4900020,
         trace = [Post \<lparr>refresh_token = ''rt'', grant_type = ''refresh_token'',
                        client_id = ''key'', client_secret = ''secret''\<rparr>]\<rparr>"
    by (simp add: refreshAccessToken_def Let_def world_at_def oauth_token_def in_cooldown_def
        attempts_so_far_def env_answering_def template_config_def axios_post_def posts_def
        granted_def saveTokenData_def encryptData_def valid_key_def refresh_request_def
        JSON_stringify_def)
  from successful_refresh_resets_and_persists [OF r t]
  have "loadTokenData ?e (snd (refreshAccessToken ?e ?w))
          = Inr (tokenData (snd (refreshAccessToken ?e ?w)))"
    by auto
  with r s show ?thesis by simp
qed

section \<open>The retry loop\<close>

text \<open>
  Claim C7. Whenever a call of \<open>refreshAccessToken\<close> inside the retry loop fails with an
  error that is not a retryable \<open>TokenRefreshError\<close> (\<open>INVALID_GRANT\<close>,
  \<open>MAX_RETRIES_EXCEEDED\<close>, or the guard's \<open>McpError\<close> for a missing refresh token),
  the loop, and with it \<open>getValidAccessToken\<close>, throws an \<open>McpError\<close> carrying that
  error's message, and the state is the one the failed call left: no further request
  and no sleep are logged.
\<close>

theorem nonretryable_failure_surfaces_at_once:
  assumes "int retryCount < maxRetries (TOKEN_REFRESH_CONFIG e)"
    and "refreshAccessToken e w = (Inl err, w')"
    and "\<not> retryable err"
  shows "retry_loop e retryCount w
           = (Inl (case err of
                     TokenRefreshError msg _ _ \<Rightarrow> McpError InvalidRequest msg
                   | McpError _ _ \<Rightarrow> failed_after retryCount (message_of err)), w')
       \<and> (retryCount = 0 \<and> tokenData w = Some td
            \<and> clock w \<ge> expiresAt td - thresholdMinutes (TOKEN_REFRESH_CONFIG e) * 60 * 1000
          \<longrightarrow> getValidAccessToken e w
                = (Inl (case err of
                          TokenRefreshError msg _ _ \<Rightarrow> McpError InvalidRequest msg
                        | McpError _ _ \<Rightarrow> failed_after 0 (message_of err)), w'))"
  using assms
  by (auto simp: retryable_def getValidAccessToken_def Let_def split: error.splits)

theorem nonretryable_failure_surfaces_at_once_witness:
  "refreshAccessToken (env_answering (answer 401 (Some ''invalid_grant''))) (world_at 4900000 oauth_token)
     = (Inl (TokenRefreshError INVALID_GRANT ''INVALID_GRANT'' False),
        \<lparr>tokenData = Some (oauth_token\<lparr>lastRefreshAttempt := Some 4900000, refreshAttempts := Some 1\<rparr>),
         tokenStore = None, clock = 4900020,
         trace = [Post \<lparr>refresh_token = ''rt'', grant_type = ''refresh_token'',
                        client_id = ''key'', client_secret = ''secret''\<rparr>]\<rparr>)
   \<and> getValidAccessToken (env_answering (answer 401 (Some ''invalid_grant''))) (world_at 4900000 oauth_token)
     = (Inl (McpError InvalidRequest INVALID_GRANT),
        \<lparr>tokenData = Some (oauth_token\<lparr>lastRefreshAttempt := Some 4900000, refreshAttempts := Some 1\<rparr>),
         tokenStore = None, clock = 4900020,
         trace = [Post \<lparr>refresh_token = ''rt'', grant_type = ''refresh_token'',
                        client_id = ''key'', client_secret = ''secret''\<rparr>]\<rparr>)
   \<and> refreshAccessToken (env_answering (answer 503 None))
        (world_at 4900000 (oauth_token\<lparr>refreshAttempts := Some 3\<rparr>))
     = (Inl max_retries_error,
        world_at 4900000 (oauth_token\<lparr>lastRefreshAttempt := Some 4900000, refreshAttempts := Some 4\<rparr>))
   \<and> getValidAccessToken (env_answering (answer 503 None))
        (world_at 4900000 (oauth_token\<lparr>refreshAttempts := Some 3\<rparr>))
     = (Inl (McpError InvalidRequest REFRESH_FAILED),
        world_at 4900000 (oauth_token\<lparr>lastRefreshAttempt := Some 4900000, refreshAttempts := Some 4\<rparr>))
   \<and> refreshAccessToken (env_answering (answer 503 None)) (world_at 14400000 static_token)
     = (Inl no_refresh_token, world_at 14400000 static_token)
   \<and> getValidAccessToken (env_answering (answer 503 None)) (world_at 14400000 static_token)
     = (Inl (failed_after 0 (message_of no_refresh_token)), world_at 14400000 static_token)"
proof -
  let ?e1 = "env_answering (answer 401 (Some ''invalid_grant''))"
  let ?e2 = "env_answering (answer 503 None)"
  let ?w1 = "world_at 4900000 oauth_token"
  let ?w2 = "world_at 4900000 (oauth_token\<lparr>refreshAttempts := Some 3\<rparr>)"
  let ?w3 = "world_at 14400000 static_token"
  have r1: "refreshAccessToken ?e1 ?w1
     = (Inl (TokenRefreshError INVALID_GRANT ''INVALID_GRANT'' False),
        \<lparr>tokenData = Some (oauth_token\<lparr>lastRefreshAttempt := Some 4900000, refreshAttempts := Some 1\<rparr>),
         tokenStore = None, clock = 4900020,
         trace = [Post \<lparr>refresh_token = ''rt'', grant_type = ''refresh_token'',
                        client_id = ''key'', client_secret = ''secret''\<rparr>]\<rparr>)"
    by (simp add: refreshAccessToken_def Let_def world_at_def oauth_token_def in_cooldown_def
        attempts_so_far_def env_answering_def template_config_def axios_post_def posts_def
        answer_def classify_def refresh_request_def)
  have r2: "refreshAccessToken ?e2 ?w2
     = (Inl max_retries_error,
        world_at 4900000 (oauth_token\<lparr>lastRefreshAttempt := Some 4900000, refreshAttempts := Some 4\<rparr>))"
    by (simp add: refreshAccessToken_def Let_def world_at_def oauth_token_def in_cooldown_def
        attempts_so_far_def env_answering_def template_config_def)
  have r3: "refreshAccessToken ?e2 ?w3 = (Inl no_refresh_token, ?w3)"
    by (simp add: refreshAccessToken_def world_at_def static_token_def)
  have n: "\<not> retryable (TokenRefreshError INVALID_GRANT ''INVALID_GRANT'' False)"
    "\<not> retryable max_retries_error" "\<not> retryable no_refresh_token"
    by (simp_all add: retryable_def max_retries_error_def no_refresh_token_def)
  have m: "int 0 < maxRetries (TOKEN_REFRESH_CONFIG ?e1)" "int 0 < maxRetries (TOKEN_REFRESH_CONFIG ?e2)"
    by (simp_all add: env_answering_def template_config_def)
  have s: "tokenData ?w1 = Some oauth_token"
    "clock ?w1 \<ge> expiresAt oauth_token - thresholdMinutes (TOKEN_REFRESH_CONFIG ?e1) * 60 * 1000"
    "tokenData ?w2 = Some (oauth_token\<lparr>refreshAttempts := Some 3\<rparr>)"
    "clock ?w2 \<ge> expiresAt (oauth_token\<lparr>refreshAttempts := Some 3\<rparr>)
        - thresholdMinutes (TOKEN_REFRESH_CONFIG ?e2) * 60 * 1000"
    "tokenData ?w3 = Some static_token"
    "clock ?w3 \<ge> expiresAt static_token - thresholdMinutes (TOKEN_REFRESH_CONFIG ?e2) * 60 * 1000"
    by (simp_all add: world_at_def oauth_token_def static_token_def env_answering_def
        template_config_def)
  have g1: "getValidAccessToken ?e1 ?w1 = (Inl (McpError InvalidRequest INVALID_GRANT), snd (refreshAccessToken ?e1 ?w1))"
    using nonretryable_failure_surfaces_at_once [OF m(1) r1 n(1), of oauth_token] s(1,2) r1
    by simp
  have g2: "getValidAccessToken ?e2 ?w2 = (Inl (McpError InvalidRequest REFRESH_FAILED), snd (refreshAccessToken ?e2 ?w2))"
    using nonretryable_failure_surfaces_at_once [OF m(2) r2 n(2), of "oauth_token\<lparr>refreshAttempts := Some 3\<rparr>"]
      s(3,4) r2
    by (simp add: max_retries_error_def)
  have g3: "getValidAccessToken ?e2 ?w3 = (Inl (failed_after 0 (message_of no_refresh_token)), ?w3)"
    using nonretryable_failure_surfaces_at_once [OF m(2) r3 n(3), of static_token] s(5,6)
    by (simp add: no_refresh_token_def)
  show ?thesis
    using r1 r2 r3 g1 g2 g3 by simp
qed

lemma classify_503:
  assumes "answers_503 out"
  shows "\<exists>x. out = Rejected x \<and> classify x = server_error"
  using assms
  by (auto simp: answers_503_def classify_def server_error_def Let_def
      split: http_outcome.splits thrown.splits option.splits)

lemma attempt_503:
  assumes "tokenData w = Some td" and "refreshToken td \<noteq> []"
    and "\<not> in_cooldown (TOKEN_REFRESH_CONFIG e) (clock w) td"
    and "attempts_so_far td + 1 \<le> maxRetries (TOKEN_REFRESH_CONFIG e)"
    and "answers_503 (provider e (posts w))"
  shows "refreshAccessToken e w =
    (Inl server_error,
     w\<lparr>tokenData := Some (td\<lparr>lastRefreshAttempt := Some (clock w),
                               refreshAttempts := Some (attempts_so_far td + 1)\<rparr>),
       clock := clock w + int (elapsed e (length (trace w))),
       trace := trace w @ [Post (refresh_request e td)]\<rparr>)"
proof -
  from classify_503 [OF assms(5)] obtain x
    where "provider e (posts w) = Rejected x" and "classify x = server_error"
    by blast
  with refresh_rejected [OF assms(1-4)] show ?thesis by simp
qed

lemma timer_delay_ge: "d \<le> 2147483647 \<Longrightarrow> d \<le> timer_delay d"
  by (simp add: timer_delay_def)

lemma rested_after_sleep:
  assumes "retryDelay (TOKEN_REFRESH_CONFIG e) \<le> 2147483647"
    and "lastRefreshAttempt td = Some t" and "t \<le> clock w"
  shows "\<not> in_cooldown (TOKEN_REFRESH_CONFIG e)
            (clock (sleep e (retryDelay (TOKEN_REFRESH_CONFIG e)) w)) td"
  using assms timer_delay_ge [OF assms(1)]
  by (simp add: in_cooldown_def sleep_def)

lemma retry_after_503:
  assumes "int (Suc k) < maxRetries (TOKEN_REFRESH_CONFIG e)"
    and "refreshAccessToken e w = (Inl server_error, w')"
  shows "retry_loop e k w = retry_loop e (Suc k) (sleep e (retryDelay (TOKEN_REFRESH_CONFIG e)) w')"
  using assms by (subst retry_loop.simps) (simp add: server_error_def)

lemma give_up_after_503:
  assumes "int k < maxRetries (TOKEN_REFRESH_CONFIG e)"
    and "\<not> int (Suc k) < maxRetries (TOKEN_REFRESH_CONFIG e)"
    and "refreshAccessToken e w = (Inl server_error, w')"
  shows "retry_loop e k w = (Inl (failed_after (Suc k) SERVER_ERROR), w')"
  using assms by (subst retry_loop.simps) (simp add: server_error_def)

lemmas run_defs = getValidAccessToken_def Let_def refreshAccessToken_def world_at_def
  oauth_token_def static_token_def in_cooldown_def attempts_so_far_def env_answering_def
  template_config_def axios_post_def posts_def is_Post_def answer_def classify_def
  refresh_request_def sleep_def timer_delay_def max_retries_error_def no_refresh_token_def
  cooldown_error_def

text \<open>
  Claim C6, as amended. With \<open>maxRetries = 3\<close> and a retry delay a timer honours, if the
  stored token is stale, has a refresh token, has no failed attempt counted and is
  outside the cooldown window, and the provider answers every request with status 503,
  then \<open>getValidAccessToken\<close> sends exactly three requests with a sleep of the retry
  delay between consecutive ones, and fails with the \<open>McpError\<close>
  \<open>Token refresh failed after 3 attempts\<close>.
\<close>

theorem three_503_answers_three_requests:
  assumes "maxRetries (TOKEN_REFRESH_CONFIG e) = 3"
    and "retryDelay (TOKEN_REFRESH_CONFIG e) \<le> 2147483647"
    and "tokenData w = Some td"
    and "clock w \<ge> expiresAt td - thresholdMinutes (TOKEN_REFRESH_CONFIG e) * 60 * 1000"
    and "refreshToken td \<noteq> []"
    and "attempts_so_far td = 0"
    and "\<not> in_cooldown (TOKEN_REFRESH_CONFIG e) (clock w) td"
    and "\<forall>k. answers_503 (provider e k)"
  shows "fst (getValidAccessToken e w) = Inl (failed_after 3 SERVER_ERROR)
       \<and> trace (snd (getValidAccessToken e w))
           = trace w @ [Post (refresh_request e td), Sleep (retryDelay (TOKEN_REFRESH_CONFIG e)),
                        Post (refresh_request e td), Sleep (retryDelay (TOKEN_REFRESH_CONFIG e)),
                        Post (refresh_request e td)]"
proof -
  define d where "d = retryDelay (TOKEN_REFRESH_CONFIG e)"
  define td1 where "td1 = td\<lparr>lastRefreshAttempt := Some (clock w), refreshAttempts := Some 1\<rparr>"
  define w1 where "w1 = w\<lparr>tokenData := Some td1,
       clock := clock w + int (elapsed e (length (trace w))),
       trace := trace w @ [Post (refresh_request e td)]\<rparr>"
  define v1 where "v1 = sleep e d w1"
  define td2 where "td2 = td1\<lparr>lastRefreshAttempt := Some (clock v1), refreshAttempts := Some 2\<rparr>"
  define w2 where "w2 = v1\<lparr>tokenData := Some td2,
       clock := clock v1 + int (elapsed e (length (trace v1))),
       trace := trace v1 @ [Post (refresh_request e td1)]\<rparr>"
  define v2 where "v2 = sleep e d w2"
  define td3 where "td3 = td2\<lparr>lastRefreshAttempt := Some (clock v2), refreshAttempts := Some 3\<rparr>"
  define w3 where "w3 = v2\<lparr>tokenData := Some td3,
       clock := clock v2 + int (elapsed e (length (trace v2))),
       trace := trace v2 @ [Post (refresh_request e td2)]\<rparr>"
  have p: "\<And>u. answers_503 (provider e (posts u))"
    using assms(8) by simp
  have a1: "refreshAccessToken e w = (Inl server_error, w1)"
    using attempt_503 [OF assms(3) assms(5) assms(7) _ p] assms(1) assms(6)
    by (simp add: w1_def td1_def)
  have c1: "\<not> in_cooldown (TOKEN_REFRESH_CONFIG e) (clock v1) td1"
    unfolding v1_def d_def
    by (rule rested_after_sleep [OF assms(2), of td1 "clock w"]) (simp_all add: td1_def w1_def)
  have s1: "tokenData v1 = Some td1" "refreshToken td1 \<noteq> []" "attempts_so_far td1 = 1"
    using assms(5) by (simp_all add: v1_def sleep_def w1_def td1_def attempts_so_far_def)
  have a2: "refreshAccessToken e v1 = (Inl server_error, w2)"
    using attempt_503 [OF s1(1) s1(2) c1 _ p] assms(1) s1(3)
    by (simp add: w2_def td2_def)
  have c2: "\<not> in_cooldown (TOKEN_REFRESH_CONFIG e) (clock v2) td2"
    unfolding v2_def d_def
    by (rule rested_after_sleep [OF assms(2), of td2 "clock v1"]) (simp_all add: td2_def w2_def)
  have s2: "tokenData v2 = Some td2" "refreshToken td2 \<noteq> []" "attempts_so_far td2 = 2"
    using s1(2) by (simp_all add: v2_def sleep_def w2_def td2_def attempts_so_far_def)
  have a3: "refreshAccessToken e v2 = (Inl server_error, w3)"
    using attempt_503 [OF s2(1) s2(2) c2 _ p] assms(1) s2(3)
    by (simp add: w3_def td3_def)
  have "getValidAccessToken e w = retry_loop e 0 w"
    using assms(3) assms(4) by (simp add: getValidAccessToken_def Let_def)
  also have "\<dots> = retry_loop e (Suc 0) v1"
    unfolding v1_def d_def by (rule retry_after_503 [OF _ a1]) (simp add: assms(1))
  also have "\<dots> = retry_loop e (Suc (Suc 0)) v2"
    unfolding v2_def d_def by (rule retry_after_503 [OF _ a2]) (simp add: assms(1))
  also have "\<dots> = (Inl (failed_after (Suc (Suc (Suc 0))) SERVER_ERROR), w3)"
    by (rule give_up_after_503 [OF _ _ a3]) (simp_all add: assms(1))
  finally have g: "getValidAccessToken e w = (Inl (failed_after 3 SERVER_ERROR), w3)"
    by (simp add: numeral_3_eq_3)
  have r: "refresh_request e td1 = refresh_request e td" "refresh_request e td2 = refresh_request e td"
    by (simp_all add: refresh_request_def td1_def td2_def)
  have "trace w3 = trace w @ [Post (refresh_request e td), Sleep d,
                        Post (refresh_request e td), Sleep d, Post (refresh_request e td)]"
    by (simp add: w3_def v2_def w2_def v1_def w1_def sleep_def r)
  with g show ?thesis by (simp add: d_def)
qed

theorem three_503_answers_three_requests_witness:
  "maxRetries (TOKEN_REFRESH_CONFIG (env_answering (answer 503 None))) = 3
   \<and> retryDelay (TOKEN_REFRESH_CONFIG (env_answering (answer 503 None))) = 1000
   \<and> tokenData (world_at 4900000 oauth_token) = Some oauth_token
   \<and> 4900000 \<ge> expiresAt oauth_token - thresholdMinutes template_config * 60 * 1000
   \<and> refreshToken oauth_token \<noteq> []
   \<and> attempts_so_far oauth_token = 0
   \<and> \<not> in_cooldown template_config 4900000 oauth_token
   \<and> answers_503 (answer 503 None)
   \<and> fst (getValidAccessToken (env_answering (answer 503 None)) (world_at 4900000 oauth_token))
       = Inl (McpError InvalidRequest
           ''Token refresh failed after 3 attempts: Dropbox server error occurred. Will retry...'')
   \<and> trace (snd (getValidAccessToken (env_answering (answer 503 None)) (world_at 4900000 oauth_token)))
       = [post_rt, Sleep 1000, post_rt, Sleep 1000, post_rt]"
proof -
  let ?e = "env_answering (answer 503 None)"
  let ?w = "world_at 4900000 oauth_token"
  have h: "maxRetries (TOKEN_REFRESH_CONFIG ?e) = 3"
    "retryDelay (TOKEN_REFRESH_CONFIG ?e) \<le> 2147483647"
    "tokenData ?w = Some oauth_token"
    "clock ?w \<ge> expiresAt oauth_token - thresholdMinutes (TOKEN_REFRESH_CONFIG ?e) * 60 * 1000"
    "refreshToken oauth_token \<noteq> []"
    "attempts_so_far oauth_token = 0"
    "\<not> in_cooldown (TOKEN_REFRESH_CONFIG ?e) (clock ?w) oauth_token"
    "\<forall>k. answers_503 (provider ?e k)"
    by (simp_all add: world_at_def oauth_token_def in_cooldown_def attempts_so_far_def
        env_answering_def template_config_def answers_503_def answer_def)
  have a: "answers_503 (answer 503 None)"
    by (simp add: answers_503_def answer_def)
  from three_503_answers_three_requests [OF h] h a show ?thesis
    by (simp add: world_at_def oauth_token_def in_cooldown_def attempts_so_far_def
        env_answering_def template_config_def refresh_request_def post_rt_def
        failed_after_def digit_def SERVER_ERROR_def)
qed

text \<open>
  The claim as written, for every stale token, fails in four ways, each with
  \<open>maxRetries = 3\<close> and a provider that always answers 503: the static-token state
  sends no request; a state with one failed attempt already counted sends two; a state
  inside the cooldown window sends two; and with a retry delay beyond what a timer
  honours the second and third calls fall into the cooldown, so one request is sent.
\<close>

theorem stale_503_fewer_requests_counterexample:
  "maxRetries (TOKEN_REFRESH_CONFIG (env_answering (answer 503 None))) = 3
   \<and> maxRetries (TOKEN_REFRESH_CONFIG patient_env) = 3
   \<and> answers_503 (answer 503 None)
   \<and> 14400000 \<ge> expiresAt static_token - thresholdMinutes template_config * 60 * 1000
   \<and> 4900000 \<ge> expiresAt oauth_token - thresholdMinutes template_config * 60 * 1000
   \<and> trace (snd (getValidAccessToken (env_answering (answer 503 None))
        (world_at 14400000 static_token))) = []
   \<and> trace (snd (getValidAccessToken (env_answering (answer 503 None))
        (world_at 4900000 (oauth_token\<lparr>refreshAttempts := Some 1\<rparr>))))
      = [post_rt, Sleep 1000, post_rt, Sleep 1000]
   \<and> trace (snd (getValidAccessToken (env_answering (answer 503 None))
        (world_at 4900000 (oauth_token\<lparr>lastRefreshAttempt := Some 4899500\<rparr>))))
      = [Sleep 1000, post_rt, Sleep 1000, post_rt]
   \<and> trace (snd (getValidAccessToken patient_env (world_at 4900000 oauth_token)))
      = [post_rt, Sleep 3000000000, Sleep 3000000000]"
  by (simp add: run_defs post_rt_def patient_env_def answers_503_def)

section \<open>Loading and saving\<close>

text \<open>
  Claim C8. \<open>loadTokenData\<close> returns \<open>null\<close> when the token file is absent. When the
  file exists and \<open>JSON.parse\<close> or \<open>decryptData\<close> throws, it throws the \<open>McpError\<close>
  with code \<open>InternalError\<close>; with the file present it never returns \<open>null\<close>.
\<close>

theorem load_absent_or_fatal:
  "(tokenStore w = None \<longrightarrow> loadTokenData e w = Inr None)
   \<and> (tokenStore w = Some t
        \<and> (JSON_parse t = None
            \<or> (JSON_parse t = Some b \<and> decryptData (TOKEN_ENCRYPTION_KEY e) b = None))
      \<longrightarrow> loadTokenData e w = Inl load_failed)
   \<and> (tokenStore w \<noteq> None \<longrightarrow> loadTokenData e w \<noteq> Inr None)"
  by (auto simp: loadTokenData_def split: option.splits)

theorem load_absent_or_fatal_witness:
  "tokenStore cold_start = None
   \<and> loadTokenData (env_answering no_answer) cold_start = Inr None
   \<and> JSON_parse (Malformed ''not json'') = None
   \<and> loadTokenData (env_answering no_answer) (cold_start\<lparr>tokenStore := Some (Malformed ''not json'')\<rparr>)
       = Inl load_failed
   \<and> decryptData (TOKEN_ENCRYPTION_KEY (env_answering no_answer)) Tampered = None
   \<and> loadTokenData (env_answering no_answer) (cold_start\<lparr>tokenStore := Some (Stringified Tampered)\<rparr>)
       = Inl load_failed
   \<and> decryptData (TOKEN_ENCRYPTION_KEY (env_answering no_answer))
        (Sealed ''another key, of 32 characters...'' oauth_token) = None
   \<and> loadTokenData (env_answering no_answer)
        (cold_start\<lparr>tokenStore := Some (Stringified (Sealed ''another key, of 32 characters...'' oauth_token))\<rparr>)
       = Inl load_failed"
  using load_absent_or_fatal [of cold_start "env_answering no_answer"]
    load_absent_or_fatal [of "cold_start\<lparr>tokenStore := Some (Malformed ''not json'')\<rparr>"
      "env_answering no_answer" "Malformed ''not json''"]
    load_absent_or_fatal [of "cold_start\<lparr>tokenStore := Some (Stringified Tampered)\<rparr>"
      "env_answering no_answer" "Stringified Tampered" Tampered]
    load_absent_or_fatal
      [of "cold_start\<lparr>tokenStore := Some (Stringified (Sealed ''another key, of 32 characters...'' oauth_token))\<rparr>"
      "env_answering no_answer" "Stringified (Sealed ''another key, of 32 characters...'' oauth_token)"
      "Sealed ''another key, of 32 characters...'' oauth_token"]
  by (simp add: cold_start_def JSON_parse_def decryptData_def env_answering_def valid_key_def)

text \<open>
  Claim C9. When \<open>saveTokenData\<close> has stored a state, \<open>loadTokenData\<close> returns that
  state, equal in every field, and it is the module-level state as well.
\<close>

theorem save_then_load_roundtrip:
  assumes "saveTokenData e d w = (Inr u, w')"
  shows "loadTokenData e w' = Inr (Some d) \<and> tokenData w' = Some d"
  using assms
  by (auto simp: saveTokenData_def loadTokenData_def encryptData_def decryptData_def
      JSON_parse_def JSON_stringify_def split: if_splits)

theorem save_then_load_roundtrip_witness:
  "saveTokenData (env_answering no_answer) oauth_token cold_start
     = (Inr (), cold_start\<lparr>tokenStore := Some (Stringified
          (Sealed ''0123456789abcdef0123456789abcdef'' oauth_token)), tokenData := Some oauth_token\<rparr>)
   \<and> loadTokenData (env_answering no_answer)
        (cold_start\<lparr>tokenStore := Some (Stringified
          (Sealed ''0123456789abcdef0123456789abcdef'' oauth_token)), tokenData := Some oauth_token\<rparr>)
     = Inr (Some oauth_token)"
proof -
  have s: "saveTokenData (env_answering no_answer) oauth_token cold_start
     = (Inr (), cold_start\<lparr>tokenStore := Some (Stringified
          (Sealed ''0123456789abcdef0123456789abcdef'' oauth_token)), tokenData := Some oauth_token\<rparr>)"
    by (simp add: saveTokenData_def encryptData_def valid_key_def env_answering_def
        JSON_stringify_def)
  from save_then_load_roundtrip [OF s] s show ?thesis by simp
qed

end
